theory Spec2Isabelle
  imports Complex_Main "HOL-Library.AList"
begin

section \<open>Strings and the parsed document\<close>

text \<open>
  A Python \<open>str\<close> is a sequence of Unicode code points, and \<open>len\<close> counts code points,
  so a string is a list of code point numbers. \<open>ascii\<close> writes an ASCII literal.
\<close>

type_synonym ustring = "nat list"

definition ascii :: "string \<Rightarrow> ustring" where
  "ascii s = map of_char s"

text \<open>
  The characters for which \<open>str.isspace\<close> holds; \<open>str.strip()\<close> and the regular
  expression class \<open>\s\<close> (on \<open>str\<close> patterns) use the same set.
\<close>

definition is_space :: "nat \<Rightarrow> bool" where
  "is_space c \<longleftrightarrow>
     (9 \<le> c \<and> c \<le> 13) \<or> (28 \<le> c \<and> c \<le> 32) \<or> c = 133 \<or> c = 160 \<or> c = 5760 \<or>
     (8192 \<le> c \<and> c \<le> 8202) \<or> c = 8232 \<or> c = 8233 \<or> c = 8239 \<or> c = 8287 \<or> c = 12288"

definition strip :: "ustring \<Rightarrow> ustring" where
  "strip s = rev (dropWhile is_space (rev (dropWhile is_space s)))"

text \<open>
  \<open>BeautifulSoup(html, 'html.parser')\<close> turns the page into a tree. The functions below
  start from that tree: a node is a piece of text (\<open>NavigableString\<close>) or a \<open>Tag\<close> with
  its name, its attribute dictionary and its contents. A document is the list of top-level
  nodes of the soup object.
\<close>

datatype node =
    NavigableString ustring
  | Tag ustring "(ustring \<times> ustring) list" "node list"

type_synonym soup = "node list"

text \<open>\<open>element.get_text()\<close>: all strings below the element, concatenated in document order.\<close>

fun get_text :: "node \<Rightarrow> ustring" where
  "get_text (NavigableString s) = s"
| "get_text (Tag name attrs contents) = concat (map get_text contents)"

definition soup_text :: "soup \<Rightarrow> ustring" where
  "soup_text doc = concat (map get_text doc)"

text \<open>The tags at or below a node, in document order (a tag before its descendants).\<close>

fun tags :: "node \<Rightarrow> node list" where
  "tags (NavigableString s) = []"
| "tags (Tag name attrs contents) = Tag name attrs contents # concat (map tags contents)"

definition soup_tags :: "soup \<Rightarrow> node list" where
  "soup_tags doc = concat (map tags doc)"

subsection \<open>Attribute filters of \<open>find_all\<close>\<close>

text \<open>
  With \<open>re.I\<close> a lower-case ASCII letter of a pattern matches itself, its upper-case form
  and, for \<open>i\<close>, \<open>k\<close>, \<open>s\<close>, the code points 304, 305, 8490 and 383; any other pattern
  character of this program matches only itself.
\<close>

definition matches_ci :: "nat \<Rightarrow> nat \<Rightarrow> bool" where
  "matches_ci p c \<longleftrightarrow>
     c = p \<or> (97 \<le> p \<and> p \<le> 122 \<and> c + 32 = p) \<or>
     (p = 105 \<and> (c = 304 \<or> c = 305)) \<or> (p = 107 \<and> c = 8490) \<or> (p = 115 \<and> c = 383)"

fun prefix_ci :: "ustring \<Rightarrow> ustring \<Rightarrow> bool" where
  "prefix_ci [] s = True"
| "prefix_ci (p # ps) [] = False"
| "prefix_ci (p # ps) (c # cs) = (matches_ci p c \<and> prefix_ci ps cs)"

text \<open>
  \<open>re.compile(r'.*word.*', re.I).search(value)\<close>: the value contains the word, letter
  case ignored.
\<close>

fun search_ci :: "ustring \<Rightarrow> ustring \<Rightarrow> bool" where
  "search_ci word [] = prefix_ci word []"
| "search_ci word (c # cs) = (prefix_ci word (c # cs) \<or> search_ci word cs)"

datatype attr_filter =
    Regex_ci ustring
  | Equals ustring

text \<open>
  \<open>soup.find_all(attrs={key: filter})\<close>: the tags that carry an attribute named \<open>key\<close>
  whose value passes the filter, in document order. The key of the \<open>attrs\<close> dictionary is
  the attribute's name as it stands in the page.
\<close>

fun attr_matches :: "ustring \<times> attr_filter \<Rightarrow> node \<Rightarrow> bool" where
  "attr_matches (key, f) (NavigableString s) = False"
| "attr_matches (key, f) (Tag name attrs contents) =
     (case map_of attrs key of
        None \<Rightarrow> False
      | Some v \<Rightarrow> (case f of Regex_ci word \<Rightarrow> search_ci word v | Equals w \<Rightarrow> v = w))"

definition find_all :: "ustring \<times> attr_filter \<Rightarrow> soup \<Rightarrow> node list" where
  "find_all pattern doc = filter (attr_matches pattern) (soup_tags doc)"

section \<open>Price extraction\<close>

definition yen_sign :: nat where "yen_sign = 165"
definition fullwidth_yen_sign :: nat where "fullwidth_yen_sign = 65509"
definition yen_unit :: nat where "yen_unit = 20870"

definition is_digit :: "nat \<Rightarrow> bool" where
  "is_digit c \<longleftrightarrow> 48 \<le> c \<and> c \<le> 57"

definition is_digit_or_comma :: "nat \<Rightarrow> bool" where
  "is_digit_or_comma c \<longleftrightarrow> is_digit c \<or> c = 44"

text \<open>The optional leading \<open>[\<yen>\<yen>]?\<close> of both price expressions (half- or full-width sign).\<close>

fun skip_yen_sign :: "ustring \<Rightarrow> ustring" where
  "skip_yen_sign [] = []"
| "skip_yen_sign (c # cs) = (if c = yen_sign \<or> c = fullwidth_yen_sign then cs else c # cs)"

text \<open>
  The expression of the structured search, sign, blanks, group \<open>([0-9,]+)\<close>, blanks and an
  optional unit, tried at the start of \<open>s\<close>; the result is group 1. Every part before the
  group is greedy and what it could give back cannot begin the group, so one attempt decides.
\<close>

definition price_match_at :: "ustring \<Rightarrow> ustring option" where
  "price_match_at s =
     (let g = takeWhile is_digit_or_comma (dropWhile is_space (skip_yen_sign s))
      in if g = [] then None else Some g)"

text \<open>\<open>re.search\<close>: the first position, from the left, at which the expression matches.\<close>

fun price_search :: "ustring \<Rightarrow> ustring option" where
  "price_search [] = price_match_at []"
| "price_search (c # cs) =
     (case price_match_at (c # cs) of Some g \<Rightarrow> Some g | None \<Rightarrow> price_search cs)"

text \<open>
  The expression of the fallback, whose group is \<open>([0-9,]{3,})\<close> and whose unit is
  required, tried at the start of \<open>s\<close>: group 1 and the text after the match.
\<close>

definition yen_match_at :: "ustring \<Rightarrow> (ustring \<times> ustring) option" where
  "yen_match_at s =
     (let body = dropWhile is_space (skip_yen_sign s);
          g = takeWhile is_digit_or_comma body;
          rest = dropWhile is_space (dropWhile is_digit_or_comma body)
      in if 3 \<le> length g \<and> rest \<noteq> [] \<and> hd rest = yen_unit then Some (g, tl rest) else None)"

lemma yen_match_at_shorter: "yen_match_at s = Some (g, r) \<Longrightarrow> length r < length s"
proof -
  assume a: "yen_match_at s = Some (g, r)"
  define body where "body = dropWhile is_space (skip_yen_sign s)"
  define rest where "rest = dropWhile is_space (dropWhile is_digit_or_comma body)"
  have l1: "length (skip_yen_sign s) \<le> length s"
    by (cases s) auto
  have l2: "length rest \<le> length s"
    unfolding rest_def body_def
    using l1 length_dropWhile_le [of is_space "skip_yen_sign s"]
      length_dropWhile_le [of is_digit_or_comma "dropWhile is_space (skip_yen_sign s)"]
      length_dropWhile_le [of is_space
        "dropWhile is_digit_or_comma (dropWhile is_space (skip_yen_sign s))"]
    by linarith
  from a have "rest \<noteq> []" and "r = tl rest"
    by (auto simp: yen_match_at_def Let_def body_def rest_def split: if_splits)
  then have "length r < length rest"
    by (cases rest) auto
  with l2 show ?thesis by linarith
qed

text \<open>\<open>re.findall\<close>: group 1 of every match, left to right, each search resuming after the last match.\<close>

function yen_findall :: "ustring \<Rightarrow> ustring list" where
  "yen_findall s =
     (case yen_match_at s of
        Some (g, r) \<Rightarrow> g # yen_findall r
      | None \<Rightarrow> (case s of [] \<Rightarrow> [] | c # cs \<Rightarrow> yen_findall cs))"
  by pat_completeness auto
termination
  by (relation "measure length") (auto dest: yen_match_at_shorter)

declare yen_findall.simps [simp del]

text \<open>\<open>price_str.replace(',', '')\<close>\<close>

definition remove_commas :: "ustring \<Rightarrow> ustring" where
  "remove_commas s = filter (\<lambda>c. c \<noteq> 44) s"

text \<open>
  \<open>int(s)\<close> on what is left of a group: ASCII digits only. \<open>None\<close> is \<open>ValueError\<close>,
  raised for the empty string and for a string of more than 4300 digits (the interpreter's
  limit on integer string conversion).
\<close>

definition py_int :: "ustring \<Rightarrow> int option" where
  "py_int s =
     (if s = [] \<or> \<not> list_all is_digit s \<or> 4300 < length s then None
      else Some (foldl (\<lambda>a d. 10 * a + int (d - 48)) 0 s))"

text \<open>The first loop of \<open>extract_price\<close>, over the elements one pattern selects.\<close>

fun scan_elements :: "node list \<Rightarrow> int option" where
  "scan_elements [] = None"
| "scan_elements (element # elements) =
     (case price_search (get_text element) of
        None \<Rightarrow> scan_elements elements
      | Some g \<Rightarrow>
          (case py_int (remove_commas g) of
             None \<Rightarrow> scan_elements elements
           | Some price \<Rightarrow>
               if 100 \<le> price \<and> price \<le> 10000000 then Some price
               else scan_elements elements))"

definition price_patterns :: "(ustring \<times> attr_filter) list" where
  "price_patterns =
     [(ascii ''class_'', Regex_ci (ascii ''price'')),
      (ascii ''class_'', Regex_ci (ascii ''value'')),
      (ascii ''itemprop'', Equals (ascii ''price''))]"

fun scan_patterns :: "(ustring \<times> attr_filter) list \<Rightarrow> soup \<Rightarrow> int option" where
  "scan_patterns [] doc = None"
| "scan_patterns (pattern # patterns) doc =
     (case scan_elements (find_all pattern doc) of
        Some price \<Rightarrow> Some price
      | None \<Rightarrow> scan_patterns patterns doc)"

text \<open>The second loop, over the numbers \<open>findall\<close> took from the whole text.\<close>

fun scan_prices :: "ustring list \<Rightarrow> int option" where
  "scan_prices [] = None"
| "scan_prices (price_str # prices) =
     (case py_int (remove_commas price_str) of
        None \<Rightarrow> scan_prices prices
      | Some price \<Rightarrow>
          if 100 \<le> price \<and> price \<le> 10000000 then Some price else scan_prices prices)"

definition extract_price :: "soup \<Rightarrow> int option" where
  "extract_price doc =
     (case scan_patterns price_patterns doc of
        Some price \<Rightarrow> Some price
      | None \<Rightarrow> scan_prices (yen_findall (soup_text doc)))"

section \<open>Product name extraction\<close>

fun tag_name :: "node \<Rightarrow> ustring" where
  "tag_name (NavigableString s) = []"
| "tag_name (Tag name attrs contents) = name"

text \<open>\<open>soup.find(name)\<close>: the first tag of that name, or \<open>None\<close>.\<close>

definition find_tag :: "ustring \<Rightarrow> soup \<Rightarrow> node option" where
  "find_tag name doc = List.find (\<lambda>t. tag_name t = name) (soup_tags doc)"

text \<open>
  The parser keeps the value of a \<open>class\<close> attribute as the list of its blank-separated
  words. A filter on \<open>class\<close> passes when one of the words passes, or else when the words
  joined by single spaces pass.
\<close>

fun add_char :: "nat \<Rightarrow> ustring list \<Rightarrow> ustring list" where
  "add_char c [] = (if is_space c then [[]] else [[c]])"
| "add_char c (w # ws) = (if is_space c then [] # w # ws else (c # w) # ws)"

definition class_words :: "ustring \<Rightarrow> ustring list" where
  "class_words v = filter (\<lambda>w. w \<noteq> []) (foldr add_char v [])"

fun join_words :: "ustring list \<Rightarrow> ustring" where
  "join_words [] = []"
| "join_words [w] = w"
| "join_words (w # ws) = w @ 32 # join_words ws"

fun class_matches :: "ustring \<Rightarrow> node \<Rightarrow> bool" where
  "class_matches word (NavigableString s) = False"
| "class_matches word (Tag name attrs contents) =
     (case map_of attrs (ascii ''class'') of
        None \<Rightarrow> False
      | Some v \<Rightarrow>
          list_ex (search_ci word) (class_words v) \<or> search_ci word (join_words (class_words v)))"

text \<open>\<open>soup.find(name, class_=re.compile(r'.*word.*', re.I))\<close>\<close>

definition find_tag_class :: "ustring \<Rightarrow> ustring \<Rightarrow> soup \<Rightarrow> node option" where
  "find_tag_class name word doc =
     List.find (\<lambda>t. tag_name t = name \<and> class_matches word t) (soup_tags doc)"

definition is_bar :: "nat \<Rightarrow> bool" where
  "is_bar c \<longleftrightarrow> c = 124 \<or> c = 65372"

definition not_newline :: "nat \<Rightarrow> bool" where
  "not_newline c \<longleftrightarrow> c \<noteq> 10"

text \<open>
  \<open>$\<close> without \<open>re.M\<close>: at the end of the string, or before a newline that is its last
  character.
\<close>

definition at_end :: "ustring \<Rightarrow> bool" where
  "at_end r \<longleftrightarrow> r = [] \<or> r = [10]"

text \<open>
  \<open>re.sub(r'[\|\<bar>].*$', '', text)\<close>, \<open>\<bar>\<close> standing for the full-width bar: at the first bar
  from which \<open>.*\<close> (any characters but newline) reaches \<open>$\<close>, the bar and the rest of the line
  are removed. What follows the match is empty or one newline, where no further match begins.
\<close>

fun strip_bar_suffix :: "ustring \<Rightarrow> ustring" where
  "strip_bar_suffix [] = []"
| "strip_bar_suffix (c # cs) =
     (if is_bar c \<and> at_end (dropWhile not_newline cs) then dropWhile not_newline cs
      else c # strip_bar_suffix cs)"

text \<open>The site name in the title suffix, three katakana letters.\<close>

definition site_name :: ustring where
  "site_name = [12494, 12472, 12510]"

text \<open>
  \<open>\s*-\s*<site name>.*$\<close> tried at the start of \<open>s\<close>: blanks, a hyphen, blanks, the
  site name and the rest of the line up to \<open>$\<close>. The result is what follows the match.
  \<open>re.I\<close> changes nothing for these characters.
\<close>

definition site_suffix_at :: "ustring \<Rightarrow> ustring option" where
  "site_suffix_at s =
     (case dropWhile is_space s of
        [] \<Rightarrow> None
      | c # cs \<Rightarrow>
          (let t = dropWhile is_space cs; r = dropWhile not_newline (drop 3 t)
           in if c = 45 \<and> take 3 t = site_name \<and> at_end r then Some r else None))"

text \<open>\<open>re.sub(r'\s*-\s*<site name>.*$', '', text, flags=re.I)\<close>\<close>

fun strip_site_suffix :: "ustring \<Rightarrow> ustring" where
  "strip_site_suffix [] = []"
| "strip_site_suffix (c # cs) =
     (case site_suffix_at (c # cs) of
        Some r \<Rightarrow> r
      | None \<Rightarrow> c # strip_site_suffix cs)"

text \<open>Lines 71 to 74 of the source: what is done to the text of a candidate element.\<close>

definition clean_name :: "ustring \<Rightarrow> ustring" where
  "clean_name text = strip (strip_site_suffix (strip_bar_suffix (strip text)))"

text \<open>The name returned when no candidate is accepted (five characters).\<close>

definition unknown_name :: ustring where
  "unknown_name = [21830, 21697, 21517, 19981, 26126]"

text \<open>The loop over the three lookups; a lookup that found nothing is skipped.\<close>

fun first_name :: "node option list \<Rightarrow> ustring" where
  "first_name [] = unknown_name"
| "first_name (None # elements) = first_name elements"
| "first_name (Some element # elements) =
     (let text = clean_name (get_text element)
      in if text \<noteq> [] \<and> 3 < length text then text else first_name elements)"

definition name_lookups :: "soup \<Rightarrow> node option list" where
  "name_lookups doc =
     [find_tag (ascii ''h1'') doc,
      find_tag_class (ascii ''h2'') (ascii ''product'') doc,
      find_tag (ascii ''title'') doc]"

definition extract_product_name :: "soup \<Rightarrow> ustring" where
  "extract_product_name doc = first_name (name_lookups doc)"

section \<open>The monitor\<close>

subsection \<open>Data\<close>

text \<open>
  The dictionary \<open>check_price\<close> returns and the monitor stores under the url, with the four
  keys of the source.
\<close>

record observation =
  url :: ustring
  price :: int
  product_name :: ustring
  timestamp :: ustring

text \<open>
  \<open>previous_prices\<close>: a dictionary from url to the last stored observation. A Python
  dictionary keeps its keys in the order of their first insertion, and that is the order in
  which it is written to the file; it is a list of pairs, read with \<open>map_of\<close> and written
  with \<open>AList.update\<close> (in place for a key that is there, at the end for a new one).
\<close>

type_synonym store = "(ustring \<times> observation) list"

text \<open>
  The file \<open>price_data.json\<close>: absent, present with bytes that cannot be read as UTF-8
  text, or present with a text. Writing the file replaces it in each case.
\<close>

datatype history_file = Missing | Undecodable | Content ustring

datatype py_error =
    ZeroDivisionError
  | FileNotFoundError
  | UnicodeDecodeError
  | JSONDecodeError

text \<open>
  What the outside world answers while one url is handled: the outcome of
  \<open>requests.get\<close> (an exception with its message, or a response with its status code and
  its page, given as the tree the parser makes of it), the clock readings
  \<open>datetime.now().isoformat()\<close> and \<open>datetime.utcnow().isoformat()\<close>, and the outcome
  of \<open>requests.post\<close> to the webhook should one be made.
\<close>

datatype http_get = Get_raises ustring | Response nat soup

datatype http_post = Post_raises ustring | Post_response nat

record visit =
  got :: http_get
  now :: ustring
  utcnow :: ustring
  webhook_reply :: http_post

text \<open>
  The message of a price change is kept as the values its format string interpolates.
  \<open>change_percent\<close> is a float in the source, printed with one decimal; here it is the
  exact quotient that float approximates.
\<close>

record price_change =
  drop_emoji :: bool
  product :: ustring
  previous :: int
  current :: int
  change :: int
  change_percent :: rat
  link :: ustring

datatype message =
    Monitoring_started nat int
  | Price_changed price_change

record embed =
  title :: ustring
  description :: message
  color :: nat
  embed_timestamp :: ustring

text \<open>The lines the program prints, one constructor for each \<open>print\<close> of the source.\<close>

datatype log_line =
    Price_not_found ustring
  | Error_caught ustring
  | Http_error_caught nat
  | Webhook_not_set
  | Discord_sent
  | Discord_failed nat
  | Discord_error ustring
  | Change_banner message
  | Unchanged ustring int
  | First_seen ustring int

text \<open>
  The monitor object with what it acts on: its webhook setting and its dictionary, the
  history file, the console, the calls of \<open>notify\<close> and the requests posted to the webhook.
\<close>

record monitor =
  discord_webhook :: ustring
  previous_prices :: store
  price_data_file :: history_file
  console :: "log_line list"
  notified :: "(message \<times> bool) list"
  posted :: "embed list"

definition print :: "log_line \<Rightarrow> monitor \<Rightarrow> monitor" where
  "print line m = m\<lparr>console := console m @ [line]\<rparr>"

subsection \<open>The history file\<close>

text \<open>
  \<open>json.dump(self.previous_prices, f, ensure_ascii=False, indent=2)\<close> writes a string
  between double quotes, with a backslash before a quote or a backslash, the short escapes
  for backspace, tab, newline, form feed and carriage return, \<open>\u00XX\<close> for the other
  characters below 32, and every other character as it is.
\<close>

definition hex_digit :: "nat \<Rightarrow> nat" where
  "hex_digit n = (if n < 10 then 48 + n else 87 + n)"

definition escape_char :: "nat \<Rightarrow> ustring" where
  "escape_char c =
     (if c = 34 then [92, 34]
      else if c = 92 then [92, 92]
      else if c = 8 then [92, 98]
      else if c = 9 then [92, 116]
      else if c = 10 then [92, 110]
      else if c = 12 then [92, 102]
      else if c = 13 then [92, 114]
      else if c < 32 then [92, 117, 48, 48, hex_digit (c div 16), hex_digit (c mod 16)]
      else [c])"

definition json_string :: "ustring \<Rightarrow> ustring" where
  "json_string s = 34 # concat (map escape_char s) @ [34]"

text \<open>
  An integer in decimal, as \<open>str\<close> gives it. (For an integer of more than 4300 digits
  \<open>str\<close> raises; no price of a loaded or observed entry is that long.)
\<close>

fun decimal :: "nat \<Rightarrow> ustring" where
  "decimal n = (if n < 10 then [48 + n] else decimal (n div 10) @ [48 + n mod 10])"

declare decimal.simps [simp del]

definition json_int :: "int \<Rightarrow> ustring" where
  "json_int i = (if i < 0 then 45 # decimal (nat (- i)) else decimal (nat i))"

text \<open>
  With \<open>indent=2\<close> every member of an object is on a line of its own, indented by two
  spaces for each level, members are separated by a comma at the end of the line, and a key
  is followed by a colon and a space. The empty dictionary is written \<open>{}\<close>. The
  members of an entry come in the order in which \<open>check_price\<close> builds it.
\<close>

definition json_member :: "ustring \<Rightarrow> ustring \<Rightarrow> ustring" where
  "json_member key val = ascii ''    '' @ json_string key @ ascii '': '' @ val"

definition json_observation :: "observation \<Rightarrow> ustring" where
  "json_observation d =
     ascii ''{'' @ [10] @
     json_member (ascii ''url'') (json_string (url d)) @ ascii '','' @ [10] @
     json_member (ascii ''price'') (json_int (price d)) @ ascii '','' @ [10] @
     json_member (ascii ''product_name'') (json_string (product_name d)) @ ascii '','' @ [10] @
     json_member (ascii ''timestamp'') (json_string (timestamp d)) @ [10] @
     ascii ''  }''"

fun json_entries :: "store \<Rightarrow> ustring" where
  "json_entries [] = []"
| "json_entries [(k, d)] = ascii ''  '' @ json_string k @ ascii '': '' @ json_observation d"
| "json_entries ((k, d) # rest) =
     ascii ''  '' @ json_string k @ ascii '': '' @ json_observation d @ ascii '','' @ [10] @
     json_entries rest"

definition json_dumps :: "store \<Rightarrow> ustring" where
  "json_dumps d =
     (if d = [] then ascii ''{}''
      else ascii ''{'' @ [10] @ json_entries d @ [10] @ ascii ''}'')"

text \<open>
  \<open>json.load\<close>, for the documents of the data model: an object whose members are
  objects with the four members of an observation. \<open>None\<close> is an exception of the
  library (the text is not JSON); a JSON document of another shape has no counterpart in
  the type \<open>store\<close> and is not covered. The scanners follow the library's decoder: each
  takes the text from its position and returns its value with the text that follows.
  Whitespace is space, tab, newline and carriage return.
\<close>

definition is_json_ws :: "nat \<Rightarrow> bool" where
  "is_json_ws c \<longleftrightarrow> c = 32 \<or> c = 9 \<or> c = 10 \<or> c = 13"

definition skip_ws :: "ustring \<Rightarrow> ustring" where
  "skip_ws s = dropWhile is_json_ws s"

text \<open>
  The four hexadecimal digits of a \<open>\uXXXX\<close> escape; a high surrogate followed by the
  escape of a low surrogate is joined with it into one character.
\<close>

definition hex_value :: "nat \<Rightarrow> nat option" where
  "hex_value c =
     (if 48 \<le> c \<and> c \<le> 57 then Some (c - 48)
      else if 97 \<le> c \<and> c \<le> 102 then Some (c - 87)
      else if 65 \<le> c \<and> c \<le> 70 then Some (c - 55)
      else None)"

fun hex4 :: "ustring \<Rightarrow> (nat \<times> ustring) option" where
  "hex4 (a # b # c # d # r) =
     (case (hex_value a, hex_value b, hex_value c, hex_value d) of
        (Some x, Some y, Some z, Some w) \<Rightarrow> Some (((x * 16 + y) * 16 + z) * 16 + w, r)
      | _ \<Rightarrow> None)"
| "hex4 s = None"

definition decode_u :: "ustring \<Rightarrow> (nat \<times> ustring) option" where
  "decode_u s =
     (case hex4 s of
        None \<Rightarrow> None
      | Some (uni, r) \<Rightarrow>
          if 55296 \<le> uni \<and> uni \<le> 56319 \<and> take 2 r = [92, 117] then
            (case hex4 (drop 2 r) of
               None \<Rightarrow> None
             | Some (uni2, r2) \<Rightarrow>
                 if 56320 \<le> uni2 \<and> uni2 \<le> 57343
                 then Some (65536 + (uni - 55296) * 1024 + (uni2 - 56320), r2)
                 else Some (uni, r))
          else Some (uni, r))"

text \<open>
  The character after a backslash, other than \<open>u\<close>.
\<close>

definition unescape :: "nat \<Rightarrow> nat option" where
  "unescape e =
     (if e = 34 then Some 34
      else if e = 92 then Some 92
      else if e = 47 then Some 47
      else if e = 98 then Some 8
      else if e = 102 then Some 12
      else if e = 110 then Some 10
      else if e = 114 then Some 13
      else if e = 116 then Some 9
      else None)"

text \<open>
  \<open>push x res\<close> puts \<open>x\<close> in front of the list a scanner returned.
\<close>

definition push :: "'a \<Rightarrow> ('a list \<times> 'b) option \<Rightarrow> ('a list \<times> 'b) option" where
  "push x res = map_option (\<lambda>(xs, r). (x # xs, r)) res"

lemma hex4_shorter: "hex4 s = Some (n, r) \<Longrightarrow> length r < length s"
  by (induction s rule: hex4.induct) (auto split: option.splits)

lemma decode_u_shorter: "decode_u s = Some (n, r) \<Longrightarrow> length r < length s"
  by (auto simp: decode_u_def split: option.splits if_splits dest!: hex4_shorter)

text \<open>
  \<open>scanstring\<close>, from the character after the opening quote: up to the closing quote,
  with the escapes decoded. A character below 32 inside the string is an error.
\<close>

function scanstring :: "ustring \<Rightarrow> (ustring \<times> ustring) option" where
  "scanstring [] = None"
| "scanstring (c # cs) =
     (if c = 34 then Some ([], cs)
      else if c = 92 then
        (case cs of
           [] \<Rightarrow> None
         | e # r \<Rightarrow>
             if e = 117 then
               (case decode_u r of
                  None \<Rightarrow> None
                | Some (uni, r1) \<Rightarrow> push uni (scanstring r1))
             else
               (case unescape e of
                  None \<Rightarrow> None
                | Some ch \<Rightarrow> push ch (scanstring r)))
      else if c < 32 then None
      else push c (scanstring cs))"
  by pat_completeness auto
termination
  by (relation "measure length") (auto dest: decode_u_shorter)

declare scanstring.simps(2) [simp del]


lemma push_Some: "push x res = Some (t, r) \<Longrightarrow> \<exists>t'. res = Some (t', r)"
  by (cases res) (auto simp: push_def)


lemma scanstring_shorter: "scanstring s = Some (t, r) \<Longrightarrow> length r < length s"
proof (induction s arbitrary: t rule: scanstring.induct)
  case 1
  then show ?case by simp
next
  case (2 c cs)
  from "2.prems" have eq:
    "(if c = 34 then Some ([], cs)
      else if c = 92 then
        (case cs of
           [] \<Rightarrow> None
         | e # r \<Rightarrow>
             if e = 117 then
               (case decode_u r of
                  None \<Rightarrow> None
                | Some (uni, r1) \<Rightarrow> push uni (scanstring r1))
             else
               (case unescape e of
                  None \<Rightarrow> None
                | Some ch \<Rightarrow> push ch (scanstring r)))
      else if c < 32 then None
      else push c (scanstring cs)) = Some (t, r)"
    by (simp only: scanstring.simps(2))
  show ?case
  proof (cases "c = 34")
    case True
    with eq show ?thesis by simp
  next
    case quote: False
    show ?thesis
    proof (cases "c = 92")
      case True
      with quote eq obtain e r0 where cs: "cs = e # r0"
        by (cases cs) simp_all
      show ?thesis
      proof (cases "e = 117")
        case u: True
        with quote True cs eq obtain uni r1 where d: "decode_u r0 = Some (uni, r1)"
          and p: "push uni (scanstring r1) = Some (t, r)"
          by (cases "decode_u r0") auto
        from p obtain t' where "scanstring r1 = Some (t', r)"
          by (cases "scanstring r1") (auto simp: push_def)
        from "2.IH"(1) [OF quote True cs u d refl this] decode_u_shorter [OF d] cs
        show ?thesis by simp
      next
        case u: False
        with quote True cs eq obtain ch where d: "unescape e = Some ch"
          and p: "push ch (scanstring r0) = Some (t, r)"
          by (cases "unescape e") auto
        from p obtain t' where "scanstring r0 = Some (t', r)"
          by (cases "scanstring r0") (auto simp: push_def)
        from "2.IH"(2) [OF quote True cs u d this] cs
        show ?thesis by simp
      qed
    next
      case False
      with quote eq have lo: "\<not> c < 32" and p: "push c (scanstring cs) = Some (t, r)"
        by (simp_all split: if_splits)
      from p obtain t' where "scanstring cs = Some (t', r)"
        by (cases "scanstring cs") (auto simp: push_def)
      from "2.IH"(3) [OF quote False lo this] show ?thesis by simp
    qed
  qed
qed

text \<open>
  A number: an optional minus sign and \<open>0\<close> or a digit from 1 to 9 followed by digits.
  When a fraction or an exponent follows, the number is a float, which is no price of the
  data model. \<open>int\<close> refuses more than 4300 digits.
\<close>

fun is_float_tail :: "ustring \<Rightarrow> bool" where
  "is_float_tail (c # d # r) =
     ((c = 46 \<and> is_digit d) \<or>
      ((c = 101 \<or> c = 69) \<and>
       (is_digit d \<or> ((d = 43 \<or> d = 45) \<and> r \<noteq> [] \<and> is_digit (hd r)))))"
| "is_float_tail s = False"

fun integer_part :: "ustring \<Rightarrow> ustring" where
  "integer_part [] = []"
| "integer_part (c # cs) =
     (if c = 48 then [48] else if 49 \<le> c \<and> c \<le> 57 then c # takeWhile is_digit cs else [])"

definition scan_int :: "ustring \<Rightarrow> (int \<times> ustring) option" where
  "scan_int s =
     (let negative = (take 1 s = [45]);
          body = (if negative then drop 1 s else s);
          digits = integer_part body;
          rest = drop (length digits) body;
          n = foldl (\<lambda>a d. 10 * a + int (d - 48)) 0 digits
      in if digits = [] \<or> is_float_tail rest \<or> 4300 < length digits then None
         else Some (if negative then - n else n, rest))"

text \<open>
  The values of the members of an observation: a string or an integer.
\<close>

datatype scalar = JString ustring | JInt int

definition scan_scalar :: "ustring \<Rightarrow> (scalar \<times> ustring) option" where
  "scan_scalar s =
     (case s of
        [] \<Rightarrow> None
      | c # cs \<Rightarrow>
          if c = 34 then map_option (\<lambda>(t, r). (JString t, r)) (scanstring cs)
          else map_option (\<lambda>(i, r). (JInt i, r)) (scan_int s))"

lemma scan_int_shorter: "scan_int s = Some (i, r) \<Longrightarrow> length r < length s"
proof -
  assume a: "scan_int s = Some (i, r)"
  define body where "body = (if take 1 s = [45] then drop 1 s else s)"
  from a have d: "integer_part body \<noteq> []" and r: "r = drop (length (integer_part body)) body"
    by (auto simp: scan_int_def Let_def body_def split: if_splits)
  from d have "body \<noteq> []" by (cases body) auto
  with d r have "length r < length body" by (cases "integer_part body") auto
  moreover have "length body \<le> length s" by (simp add: body_def)
  ultimately show ?thesis by simp
qed

lemma scan_scalar_shorter: "scan_scalar s = Some (v, r) \<Longrightarrow> length r < length s"
proof (cases s)
  case Nil
  assume "scan_scalar s = Some (v, r)"
  with Nil show ?thesis by (simp add: scan_scalar_def)
next
  case (Cons c cs)
  assume a: "scan_scalar s = Some (v, r)"
  show ?thesis
  proof (cases "c = 34")
    case True
    with a Cons obtain t where "scanstring cs = Some (t, r)"
      by (cases "scanstring cs") (auto simp: scan_scalar_def)
    from scanstring_shorter [OF this] Cons show ?thesis by simp
  next
    case False
    with a Cons obtain i where "scan_int s = Some (i, r)"
      by (cases "scan_int s") (auto simp: scan_scalar_def)
    from scan_int_shorter [OF this] show ?thesis .
  qed
qed

lemma skip_ws_Cons: "skip_ws s = c # r \<Longrightarrow> length r < length s"
  using length_dropWhile_le [of is_json_ws s] by (simp add: skip_ws_def)

lemma skip_ws_le: "length (skip_ws s) \<le> length s"
  by (simp add: skip_ws_def length_dropWhile_le)

lemma scan_scalar_skip_shorter:
  "scan_scalar (skip_ws s) = Some (v, r) \<Longrightarrow> length r < length s"
  using scan_scalar_shorter [of "skip_ws s" v r] skip_ws_le [of s] by simp

text \<open>
  The members of an object, from the character after the opening quote of a key: key,
  colon, value, then a closing brace or a comma and the next key.
\<close>

function scan_fields :: "ustring \<Rightarrow> ((ustring \<times> scalar) list \<times> ustring) option" where
  "scan_fields s =
     (case scanstring s of
        None \<Rightarrow> None
      | Some (key, s1) \<Rightarrow>
          (case skip_ws s1 of
             [] \<Rightarrow> None
           | c1 # s2 \<Rightarrow>
               if c1 \<noteq> 58 then None
               else
                 (case scan_scalar (skip_ws s2) of
                    None \<Rightarrow> None
                  | Some (v, s3) \<Rightarrow>
                      (case skip_ws s3 of
                         [] \<Rightarrow> None
                       | c2 # s4 \<Rightarrow>
                           if c2 = 125 then Some ([(key, v)], s4)
                           else if c2 = 44 then
                             (case skip_ws s4 of
                                [] \<Rightarrow> None
                              | c3 # s5 \<Rightarrow>
                                  if c3 = 34 then push (key, v) (scan_fields s5) else None)
                           else None))))"
  by pat_completeness auto
termination
  by (relation "measure length")
     (auto dest!: scanstring_shorter skip_ws_Cons scan_scalar_skip_shorter)

declare scan_fields.simps [simp del]

lemma push_SomeD: "push x res = Some (t, r) \<Longrightarrow> \<exists>t'. res = Some (t', r) \<and> t = x # t'"
  by (cases res) (auto simp: push_def)

lemma scan_fields_shorter: "scan_fields s = Some (fs, r) \<Longrightarrow> length r < length s"
proof (induction "length s" arbitrary: s fs rule: less_induct)
  case less
  from less.prems obtain key s1 s2 v s3 c2 s4
    where a: "scanstring s = Some (key, s1)" and b: "skip_ws s1 = 58 # s2"
      and c: "scan_scalar (skip_ws s2) = Some (v, s3)" and d: "skip_ws s3 = c2 # s4"
      and e: "(if c2 = 125 then Some ([(key, v)], s4)
               else if c2 = 44 then
                 (case skip_ws s4 of
                    [] \<Rightarrow> None
                  | c3 # s5 \<Rightarrow> if c3 = 34 then push (key, v) (scan_fields s5) else None)
               else None) = Some (fs, r)"
    by (subst (asm) scan_fields.simps) (auto split: option.splits list.splits if_splits)
  from a b c d have len: "length s4 < length s"
    using scanstring_shorter [OF a] skip_ws_Cons [OF b] scan_scalar_skip_shorter [OF c]
      skip_ws_Cons [OF d] by simp
  show ?case
  proof (cases "c2 = 125")
    case True
    with e len show ?thesis by simp
  next
    case False
    with e obtain s5 where f: "skip_ws s4 = 34 # s5"
      and g: "push (key, v) (scan_fields s5) = Some (fs, r)"
      by (auto split: if_splits list.splits)
    from g obtain fs' where h: "scan_fields s5 = Some (fs', r)"
      using push_SomeD [OF g] by auto
    from skip_ws_Cons [OF f] len have "length s5 < length s" by simp
    from less.hyps [OF this h] this show ?thesis by simp
  qed
qed

text \<open>
  An object after its opening brace: empty, or members.
\<close>

definition scan_object :: "ustring \<Rightarrow> ((ustring \<times> scalar) list \<times> ustring) option" where
  "scan_object s =
     (case skip_ws s of
        [] \<Rightarrow> None
      | c # r \<Rightarrow> if c = 125 then Some ([], r) else if c = 34 then scan_fields r else None)"

text \<open>
  The dictionary made of the members (the last value of a repeated key stands) is an
  observation when its keys are the four keys, with a string, an integer, a string and a
  string.
\<close>

definition observation_of :: "(ustring \<times> scalar) list \<Rightarrow> observation option" where
  "observation_of members =
     (let d = map_of (rev members)
      in if set (map fst members) =
            {ascii ''url'', ascii ''price'', ascii ''product_name'', ascii ''timestamp''}
         then
           (case d (ascii ''url'') of
              Some (JString u) \<Rightarrow>
                (case d (ascii ''price'') of
                   Some (JInt p) \<Rightarrow>
                     (case d (ascii ''product_name'') of
                        Some (JString n) \<Rightarrow>
                          (case d (ascii ''timestamp'') of
                             Some (JString t) \<Rightarrow>
                               Some \<lparr>url = u, price = p, product_name = n, timestamp = t\<rparr>
                           | _ \<Rightarrow> None)
                      | _ \<Rightarrow> None)
                 | _ \<Rightarrow> None)
            | _ \<Rightarrow> None)
         else None)"

definition scan_observation :: "ustring \<Rightarrow> (observation \<times> ustring) option" where
  "scan_observation s =
     (case s of
        [] \<Rightarrow> None
      | c # r \<Rightarrow>
          if c = 123 then
            (case scan_object r of
               None \<Rightarrow> None
             | Some (members, rest) \<Rightarrow>
                 (case observation_of members of None \<Rightarrow> None | Some d \<Rightarrow> Some (d, rest)))
          else None)"

lemma scan_observation_skip_shorter:
  "scan_observation (skip_ws s) = Some (d, r) \<Longrightarrow> length r < length s"
proof -
  assume a: "scan_observation (skip_ws s) = Some (d, r)"
  then obtain s1 members where b: "skip_ws s = 123 # s1" and c: "scan_object s1 = Some (members, r)"
    by (auto simp: scan_observation_def split: list.splits if_splits option.splits)
  from c obtain c1 s2 where e: "skip_ws s1 = c1 # s2"
    and f: "c1 = 125 \<and> r = s2 \<or> scan_fields s2 = Some (members, r)"
    by (auto simp: scan_object_def split: list.splits if_splits)
  from f have "length r \<le> length s2"
    using scan_fields_shorter [of s2 members r] by auto
  with skip_ws_Cons [OF b] skip_ws_Cons [OF e] show ?thesis by simp
qed

text \<open>
  The members of the outer object, each an observation under its url.
\<close>

function scan_entries :: "ustring \<Rightarrow> ((ustring \<times> observation) list \<times> ustring) option" where
  "scan_entries s =
     (case scanstring s of
        None \<Rightarrow> None
      | Some (key, s1) \<Rightarrow>
          (case skip_ws s1 of
             [] \<Rightarrow> None
           | c1 # s2 \<Rightarrow>
               if c1 \<noteq> 58 then None
               else
                 (case scan_observation (skip_ws s2) of
                    None \<Rightarrow> None
                  | Some (v, s3) \<Rightarrow>
                      (case skip_ws s3 of
                         [] \<Rightarrow> None
                       | c2 # s4 \<Rightarrow>
                           if c2 = 125 then Some ([(key, v)], s4)
                           else if c2 = 44 then
                             (case skip_ws s4 of
                                [] \<Rightarrow> None
                              | c3 # s5 \<Rightarrow>
                                  if c3 = 34 then push (key, v) (scan_entries s5) else None)
                           else None))))"
  by pat_completeness auto
termination
  by (relation "measure length")
     (auto dest!: scanstring_shorter skip_ws_Cons scan_observation_skip_shorter)

declare scan_entries.simps [simp del]

text \<open>
  The dictionary built from the pairs in their order: a repeated key keeps its first place
  and takes the last value.
\<close>

definition dict_of :: "(ustring \<times> observation) list \<Rightarrow> store" where
  "dict_of pairs = foldl (\<lambda>d (k, v). AList.update k v d) [] pairs"

text \<open>
  The whole text: whitespace, the object, whitespace, and nothing more.
\<close>

definition json_loads :: "ustring \<Rightarrow> store option" where
  "json_loads text =
     (case skip_ws text of
        [] \<Rightarrow> None
      | c # s \<Rightarrow>
          if c \<noteq> 123 then None
          else
            (case skip_ws s of
               [] \<Rightarrow> None
             | c1 # s1 \<Rightarrow>
                 if c1 = 125 then (if skip_ws s1 = [] then Some [] else None)
                 else if c1 = 34 then
                   (case scan_entries s1 of
                      None \<Rightarrow> None
                    | Some (pairs, rest) \<Rightarrow>
                        if skip_ws rest = [] then Some (dict_of pairs) else None)
                 else None))"


text \<open>
  \<open>load_previous_prices\<close> takes the reading function as a parameter \<open>loads\<close>
  (\<open>loads text\<close> is the dictionary read from a text, or \<open>None\<close> when the library
  raises), so that what is proved of it holds whatever \<open>json.load\<close> does;
  \<open>json_loads\<close> is the reading function of the round trip and of the examples.
\<close>

definition read_json :: "(ustring \<Rightarrow> store option) \<Rightarrow> history_file \<Rightarrow> py_error + store" where
  "read_json loads f =
     (case f of
        Missing \<Rightarrow> Inl FileNotFoundError
      | Undecodable \<Rightarrow> Inl UnicodeDecodeError
      | Content text \<Rightarrow> (case loads text of None \<Rightarrow> Inl JSONDecodeError | Some d \<Rightarrow> Inr d))"

definition load_previous_prices :: "(ustring \<Rightarrow> store option) \<Rightarrow> history_file \<Rightarrow> store" where
  "load_previous_prices loads f =
     (if f \<noteq> Missing then
        (case read_json loads f of Inr d \<Rightarrow> d | Inl e \<Rightarrow> [])
      else [])"

definition save_prices :: "monitor \<Rightarrow> monitor" where
  "save_prices m = m\<lparr>price_data_file := Content (json_dumps (previous_prices m))\<rparr>"

subsection \<open>Fetching a page\<close>

text \<open>\<open>response.raise_for_status()\<close> raises for the status codes 400 to 599.\<close>

definition raise_for_status :: "nat \<Rightarrow> bool" where
  "raise_for_status code \<longleftrightarrow> 400 \<le> code \<and> code < 600"

definition check_price :: "ustring \<Rightarrow> visit \<Rightarrow> monitor \<Rightarrow> observation option \<times> monitor" where
  "check_price u v m =
     (case got v of
        Get_raises e \<Rightarrow> (None, print (Error_caught (take 100 e)) m)
      | Response code doc \<Rightarrow>
          if raise_for_status code then (None, print (Http_error_caught code) m)
          else
            (case extract_price doc of
               None \<Rightarrow> (None, print (Price_not_found (extract_product_name doc)) m)
             | Some current_price \<Rightarrow>
                 (Some \<lparr>url = u, price = current_price,
                        product_name = extract_product_name doc, timestamp = now v\<rparr>, m)))"

subsection \<open>Notification\<close>

definition title_drop :: ustring where
  "title_drop = [127881, 32, 20516, 19979, 12370, 26908, 30693, 65281]"

definition title_change :: ustring where
  "title_change = [128200, 32, 20385, 26684, 22793, 26356]"

definition send_discord_notification ::
  "message \<Rightarrow> bool \<Rightarrow> visit \<Rightarrow> monitor \<Rightarrow> bool \<times> monitor" where
  "send_discord_notification msg is_price_drop v m =
     (if discord_webhook m = [] then (False, print Webhook_not_set m)
      else
        (let e = \<lparr>title = (if is_price_drop then title_drop else title_change),
                  description = msg,
                  color = (if is_price_drop then 65280 else 16750848),
                  embed_timestamp = utcnow v\<rparr>;
             m1 = m\<lparr>posted := posted m @ [e]\<rparr>
         in case webhook_reply v of
              Post_raises err \<Rightarrow> (False, print (Discord_error err) m1)
            | Post_response code \<Rightarrow>
                if code = 204 then (True, print Discord_sent m1)
                else (False, print (Discord_failed code) m1)))"

definition notify :: "message \<Rightarrow> bool \<Rightarrow> visit \<Rightarrow> monitor \<Rightarrow> monitor" where
  "notify msg is_price_drop v m =
     snd (send_discord_notification msg is_price_drop v
            (print (Change_banner msg) (m\<lparr>notified := notified m @ [(msg, is_price_drop)]\<rparr>)))"

subsection \<open>The loop over the urls\<close>

text \<open>
  The body of \<open>for url in self.urls\<close> (lines 149 to 172). \<open>Inl\<close> is an exception that
  leaves \<open>monitor\<close>: the division by a stored price of 0.
\<close>

definition process_url :: "ustring \<Rightarrow> visit \<Rightarrow> monitor \<Rightarrow> py_error + monitor" where
  "process_url u v m =
     (case check_price u v m of
        (None, m1) \<Rightarrow> Inr m1
      | (Some current_data, m1) \<Rightarrow>
          (let key = url current_data;
               current_price = price current_data;
               name = product_name current_data
           in case map_of (previous_prices m1) key of
                Some stored \<Rightarrow>
                  (let previous_price = price stored
                   in if current_price \<noteq> previous_price then
                        (let delta = current_price - previous_price
                         in if previous_price = 0 then Inl ZeroDivisionError
                            else
                              (let percent = of_int delta / of_int previous_price * 100;
                                   is_price_drop = delta < 0;
                                   msg = Price_changed
                                     \<lparr>drop_emoji = is_price_drop, product = name,
                                      previous = previous_price, current = current_price,
                                      change = delta, change_percent = percent, link = key\<rparr>;
                                   m2 = notify msg is_price_drop v m1;
                                   m3 = m2\<lparr>previous_prices :=
                                          AList.update key current_data (previous_prices m2)\<rparr>
                               in Inr (save_prices m3)))
                      else Inr (print (Unchanged (take 40 name) current_price) m1))
              | None \<Rightarrow>
                  (let m2 = print (First_seen (take 40 name) current_price) m1;
                       m3 = m2\<lparr>previous_prices :=
                              AList.update key current_data (previous_prices m2)\<rparr>
                   in Inr (save_prices m3))))"

text \<open>One pass of the \<open>for\<close> loop over the urls, each with what the world answers for it.\<close>

fun for_urls :: "(ustring \<times> visit) list \<Rightarrow> monitor \<Rightarrow> py_error + monitor" where
  "for_urls [] m = Inr m"
| "for_urls ((u, v) # rest) m =
     (case process_url u v m of
        Inl e \<Rightarrow> Inl e
      | Inr m' \<Rightarrow> for_urls rest m')"

subsection \<open>The invariant of the data model\<close>


section \<open>Example pages\<close>

text \<open>Two elements marked \<open>itemprop="price"\<close>, the first with the text 50, the second 1,200.\<close>

definition two_offers :: soup where
  "two_offers =
     [Tag (ascii ''span'') [(ascii ''itemprop'', ascii ''price'')] [NavigableString (ascii ''50'')],
      Tag (ascii ''span'') [(ascii ''itemprop'', ascii ''price'')]
        [NavigableString (ascii ''1,200'')]]"


text \<open>
  A shop page with a heading and one price element; what the world answers for it; the
  observation the monitor makes of it; and a monitor that has stored the price 1000 for it.
\<close>

definition shop_url :: ustring where
  "shop_url = ascii ''https://shop.example/tv''"

definition offer_page :: "ustring \<Rightarrow> soup" where
  "offer_page price_text =
     [Tag (ascii ''html'') []
        [Tag (ascii ''h1'') [] [NavigableString (ascii ''Television X'')],
         Tag (ascii ''span'') [(ascii ''itemprop'', ascii ''price'')]
           [NavigableString price_text]]]"

definition answer :: "nat \<Rightarrow> ustring \<Rightarrow> http_post \<Rightarrow> visit" where
  "answer code price_text reply =
     \<lparr>got = Response code (offer_page price_text), now = ascii ''2024-05-01T10:00:00'',
      utcnow = ascii ''2024-05-01T01:00:00'', webhook_reply = reply\<rparr>"

definition seen_at :: "int \<Rightarrow> observation" where
  "seen_at p =
     \<lparr>url = shop_url, price = p, product_name = ascii ''Television X'',
      timestamp = ascii ''2024-05-01T10:00:00''\<rparr>"

definition stored_1000 :: observation where
  "stored_1000 =
     \<lparr>url = shop_url, price = 1000, product_name = ascii ''Television X'',
      timestamp = ascii ''2024-04-30T10:00:00''\<rparr>"

definition watching :: monitor where
  "watching =
     \<lparr>discord_webhook = ascii ''https://discord.example/hook'',
      previous_prices = [(shop_url, stored_1000)],
      price_data_file = Content (ascii ''old''), console = [], notified = [], posted = []\<rparr>"

text \<open>A message for the examples of the notifier.\<close>

definition started :: message where
  "started = Monitoring_started 1 300"

text \<open>A second url, and a visit in which the request fails.\<close>

definition unreachable :: visit where
  "unreachable =
     \<lparr>got = Get_raises (ascii ''connection refused''), now = ascii ''2024-05-01T09:59:57'',
      utcnow = ascii ''2024-05-01T00:59:57'', webhook_reply = Post_response 204\<rparr>"

definition other_url :: ustring where
  "other_url = ascii ''https://shop.example/radio''"

text \<open>
  A page whose price element is marked \<open>class="price"\<close> and shows the price with a yen
  sign and no unit; the same page with the attribute spelled \<open>class_\<close>; and a page with
  a short heading and a title that carries a shop suffix.
\<close>

definition class_price_page :: soup where
  "class_price_page =
     [Tag (ascii ''span'') [(ascii ''class'', ascii ''price'')]
        [NavigableString (yen_sign # ascii ''1,000'')]]"

definition class_underscore_page :: soup where
  "class_underscore_page =
     [Tag (ascii ''span'') [(ascii ''class_'', ascii ''price'')]
        [NavigableString (yen_sign # ascii ''1,000'')]]"


section \<open>Properties of the extraction\<close>

lemma scan_elements_range: "scan_elements es = Some p \<Longrightarrow> 100 \<le> p \<and> p \<le> 10000000"
  by (induction es) (auto split: option.splits if_splits)

lemma scan_patterns_range: "scan_patterns ps doc = Some p \<Longrightarrow> 100 \<le> p \<and> p \<le> 10000000"
  by (induction ps) (auto split: option.splits dest: scan_elements_range)

lemma scan_prices_range: "scan_prices xs = Some p \<Longrightarrow> 100 \<le> p \<and> p \<le> 10000000"
  by (induction xs) (auto split: option.splits if_splits)

lemma extract_price_range: "extract_price doc = Some p \<Longrightarrow> 100 \<le> p \<and> p \<le> 10000000"
  unfolding extract_price_def
  by (auto split: option.splits dest: scan_patterns_range scan_prices_range)

lemmas price_eval =
  yen_findall.simps extract_price_def price_patterns_def find_all_def soup_tags_def soup_text_def ascii_def
  price_match_at_def yen_match_at_def yen_sign_def fullwidth_yen_sign_def yen_unit_def
  is_space_def is_digit_or_comma_def is_digit_def py_int_def remove_commas_def matches_ci_def

text \<open>
  C5. A price that \<open>extract_price\<close> returns lies between 100 and 10000000, both included.
  A candidate that parses to a number outside that range is passed over and the loop goes on
  with the next candidate, in the loop over elements as in the loop over the numbers of the
  whole text; so such a number is never the result.
\<close>

theorem extract_price_in_range:
  "(extract_price doc = Some p \<longrightarrow> 100 \<le> p \<and> p \<le> 10000000) \<and>
   (price_search (get_text element) = Some g \<and> py_int (remove_commas g) = Some q \<and>
      \<not> (100 \<le> q \<and> q \<le> 10000000) \<longrightarrow>
    scan_elements (element # elements) = scan_elements elements) \<and>
   (py_int (remove_commas price_str) = Some q \<and> \<not> (100 \<le> q \<and> q \<le> 10000000) \<longrightarrow>
    scan_prices (price_str # prices) = scan_prices prices)"
  using extract_price_range [of doc p] by auto

theorem extract_price_in_range_witness:
  "extract_price two_offers = Some 1200 \<and> 100 \<le> (1200::int) \<and> (1200::int) \<le> 10000000 \<and>
   price_search (get_text (hd two_offers)) = Some (ascii ''50'') \<and>
   py_int (remove_commas (ascii ''50'')) = Some 50 \<and>
   \<not> (100 \<le> (50::int) \<and> (50::int) \<le> 10000000) \<and>
   scan_elements (hd two_offers # tl two_offers) = scan_elements (tl two_offers) \<and>
   scan_elements (tl two_offers) = Some 1200 \<and>
   scan_prices [ascii ''50'', ascii ''1,200''] = scan_prices [ascii ''1,200''] \<and>
   scan_prices [ascii ''1,200''] = Some 1200"
  using extract_price_in_range [of two_offers 1200 "hd two_offers" "ascii ''50''" 50
      "tl two_offers" "ascii ''50''" "[ascii ''1,200'']"]
  by (simp add: two_offers_def price_eval)

section \<open>Properties of the monitor loop\<close>

lemma check_price_Some:
  "check_price u v m = (Some seen, m1) \<Longrightarrow> m1 = m \<and> url seen = u"
  by (auto simp: check_price_def split: http_get.splits if_splits option.splits)

lemmas name_eval =
  extract_product_name_def name_lookups_def find_tag_def find_tag_class_def clean_name_def
  strip_def is_bar_def not_newline_def at_end_def site_suffix_at_def site_name_def
  unknown_name_def class_words_def

lemmas sample_defs =
  shop_url_def offer_page_def answer_def seen_at_def stored_1000_def watching_def

lemma check_1000: "check_price shop_url (answer 200 (ascii ''1,000'') r) watching = (Some (seen_at 1000), watching)"
  by (simp add: check_price_def raise_for_status_def sample_defs price_eval name_eval)


text \<open>
  C6. When the price just observed for a url equals the stored price, handling that url
  changes nothing but the console: the monitor afterwards is the monitor before with one
  more printed line. The dictionary, the history file, the calls of \<open>notify\<close> and the
  requests to the webhook are as they were.
\<close>

theorem unchanged_price_mutates_nothing:
  assumes "check_price u v m = (Some seen, m1)"
    and "map_of (previous_prices m) u = Some stored"
    and "price seen = price stored"
  shows "process_url u v m =
           Inr (m\<lparr>console := console m @ [Unchanged (take 40 (product_name seen)) (price seen)]\<rparr>)"
proof -
  from assms(1) have "m1 = m" and "url seen = u"
    using check_price_Some by blast+
  with assms show ?thesis
    by (simp add: process_url_def print_def Let_def)
qed

theorem unchanged_price_mutates_nothing_witness:
  "check_price shop_url (answer 200 (ascii ''1,000'') (Post_response 204)) watching =
     (Some (seen_at 1000), watching) \<and>
   map_of (previous_prices watching) shop_url = Some stored_1000 \<and>
   price (seen_at 1000) = price stored_1000 \<and>
   process_url shop_url (answer 200 (ascii ''1,000'') (Post_response 204)) watching =
     Inr (watching\<lparr>console := [Unchanged (ascii ''Television X'') 1000]\<rparr>)"
proof -
  have a: "check_price shop_url (answer 200 (ascii ''1,000'') (Post_response 204)) watching =
     (Some (seen_at 1000), watching)" by (rule check_1000)
  have b: "map_of (previous_prices watching) shop_url = Some stored_1000"
    by (simp add: watching_def)
  have c: "price (seen_at 1000) = price stored_1000"
    by (simp add: seen_at_def stored_1000_def)
  show ?thesis
    using a b c unchanged_price_mutates_nothing [OF a b c]
    by (simp add: seen_at_def watching_def ascii_def)
qed



section \<open>Properties of the history file and of the notifier\<close>

subsection \<open>Reading back what was written\<close>
































text \<open>
  C10. \<open>load_previous_prices\<close> returns a dictionary in every case: the empty one when the
  file is absent, when it cannot be read, and when its text is not JSON (every exception of
  the reading is caught). With the empty dictionary no url has a stored observation, so
  each is seen for the first time again.
\<close>

theorem load_previous_prices_never_fails:
  "load_previous_prices loads Missing = [] \<and>
   load_previous_prices loads Undecodable = [] \<and>
   (loads text = None \<longrightarrow> load_previous_prices loads (Content text) = []) \<and>
   (load_previous_prices loads f = [] \<longrightarrow> map_of (load_previous_prices loads f) u = None)"
  by (simp add: load_previous_prices_def read_json_def)

theorem load_previous_prices_never_fails_witness:
  "json_loads (ascii ''{'') = None \<and>
   load_previous_prices json_loads (Content (ascii ''{'')) = [] \<and>
   load_previous_prices json_loads Missing = [] \<and>
   load_previous_prices json_loads Undecodable = [] \<and>
   map_of (load_previous_prices json_loads (Content (ascii ''{''))) shop_url = None"
proof -
  have a: "json_loads (ascii ''{'') = None"
    by (simp add: json_loads_def skip_ws_def is_json_ws_def ascii_def)
  show ?thesis
    using a load_previous_prices_never_fails [of json_loads "ascii ''{''"
        "Content (ascii ''{'')" shop_url]
    by simp
qed



text \<open>
  C2, as the code has it. With a webhook configured, \<open>send_discord_notification\<close>
  returns \<open>True\<close> exactly when the POST is answered with status 204. Any other status,
  and any exception of the POST, is printed and gives \<open>False\<close>; the function returns in
  each case.
\<close>

theorem send_discord_notification_success:
  assumes "discord_webhook m \<noteq> []"
  shows "fst (send_discord_notification msg d v m) = (webhook_reply v = Post_response 204) \<and>
         (webhook_reply v = Post_response code \<and> code \<noteq> 204 \<longrightarrow>
            console (snd (send_discord_notification msg d v m)) =
              console m @ [Discord_failed code]) \<and>
         (webhook_reply v = Post_raises err \<longrightarrow>
            console (snd (send_discord_notification msg d v m)) =
              console m @ [Discord_error err])"
  using assms
  by (auto simp: send_discord_notification_def print_def Let_def split: http_post.splits)

theorem send_discord_notification_success_witness:
  "discord_webhook watching \<noteq> [] \<and>
   fst (send_discord_notification started False
          (answer 200 (ascii ''800'') (Post_response 204)) watching) \<and>
   \<not> fst (send_discord_notification started False
          (answer 200 (ascii ''800'') (Post_response 500)) watching) \<and>
   console (snd (send_discord_notification started False
          (answer 200 (ascii ''800'') (Post_response 500)) watching)) = [Discord_failed 500] \<and>
   console (snd (send_discord_notification started False
          (answer 200 (ascii ''800'') (Post_raises (ascii ''timed out''))) watching)) =
     [Discord_error (ascii ''timed out'')]"
proof -
  have a: "discord_webhook watching \<noteq> []"
    by (simp add: watching_def ascii_def)
  show ?thesis
    using a
      send_discord_notification_success [OF a, of started False
        "answer 200 (ascii ''800'') (Post_response 204)" 0 "[]"]
      send_discord_notification_success [OF a, of started False
        "answer 200 (ascii ''800'') (Post_response 500)" 500 "[]"]
      send_discord_notification_success [OF a, of started False
        "answer 200 (ascii ''800'') (Post_raises (ascii ''timed out''))" 0 "ascii ''timed out''"]
    by (simp add: answer_def print_def watching_def)
qed

text \<open>
  C2 as stated fails: an answer with status 200 is a 2xx response, not a delivery failure in
  the claim's sense, and the function returns \<open>False\<close> for it.
\<close>

theorem status_200_is_reported_failed:
  "discord_webhook watching \<noteq> [] \<and> (200::nat) \<le> 200 \<and> (200::nat) < 300 \<and>
   fst (send_discord_notification started False
          (answer 200 (ascii ''800'') (Post_response 200)) watching) = False"
  by (simp add: send_discord_notification_def watching_def answer_def ascii_def print_def)

section \<open>Failures while fetching\<close>

lemma for_urls_append:
  "for_urls (xs @ ys) m = (case for_urls xs m of Inl e \<Rightarrow> Inl e | Inr m' \<Rightarrow> for_urls ys m')"
  by (induction xs arbitrary: m) (auto split: sum.splits)

text \<open>
  C8, as the code has it. When the request for a url raises, or is answered with a status
  from 400 to 599, or the page yields no price, one line is printed and nothing else
  changes; the loop then handles the urls that follow, from that state. The failure never
  leaves the handling of the url.
\<close>

theorem failed_url_is_skipped:
  assumes "for_urls before m = Inr m1"
    and "(\<exists>err. got v = Get_raises err) \<or>
         (\<exists>code doc. got v = Response code doc \<and>
            ((400 \<le> code \<and> code < 600) \<or> extract_price doc = None))"
  shows "\<exists>line. process_url u v m1 = Inr (print line m1) \<and>
           for_urls (before @ (u, v) # rest) m = for_urls rest (print line m1)"
proof -
  from assms(2) have "\<exists>line. check_price u v m1 = (None, print line m1)"
    by (auto simp: check_price_def raise_for_status_def)
  then obtain line where "check_price u v m1 = (None, print line m1)" ..
  then have "process_url u v m1 = Inr (print line m1)"
    by (simp add: process_url_def)
  with assms(1) show ?thesis
    by (auto simp: for_urls_append)
qed

lemma check_offer:
  "check_price shop_url (answer 200 (ascii ''800'') r) m = (Some (seen_at 800), m)"
  by (simp add: check_price_def raise_for_status_def sample_defs price_eval name_eval)

lemma process_800:
  "process_url shop_url (answer 200 (ascii ''800'') (Post_response 204)) (print line watching) =
   Inr (print line watching
     \<lparr>previous_prices := [(shop_url, seen_at 800)],
      price_data_file := Content (json_dumps [(shop_url, seen_at 800)]),
      notified := [(Price_changed
         \<lparr>drop_emoji = True, product = ascii ''Television X'', previous = 1000, current = 800,
          change = - 200, change_percent = - 20, link = shop_url\<rparr>, True)],
      posted := [\<lparr>title = title_drop, description = Price_changed
         \<lparr>drop_emoji = True, product = ascii ''Television X'', previous = 1000, current = 800,
          change = - 200, change_percent = - 20, link = shop_url\<rparr>, color = 65280,
          embed_timestamp = ascii ''2024-05-01T01:00:00''\<rparr>],
      console := [line, Change_banner (Price_changed
         \<lparr>drop_emoji = True, product = ascii ''Television X'', previous = 1000, current = 800,
          change = - 200, change_percent = - 20, link = shop_url\<rparr>), Discord_sent]\<rparr>)"
  by (simp add: process_url_def check_offer Let_def)
     (simp add: print_def notify_def send_discord_notification_def save_prices_def
        seen_at_def stored_1000_def watching_def answer_def ascii_def Let_def)

theorem failed_url_is_skipped_witness:
  "for_urls [] watching = Inr watching \<and>
   got unreachable = Get_raises (ascii ''connection refused'') \<and>
   process_url other_url unreachable watching =
     Inr (print (Error_caught (ascii ''connection refused'')) watching) \<and>
   for_urls ([] @ (other_url, unreachable) #
       [(shop_url, answer 200 (ascii ''800'') (Post_response 204))]) watching =
     for_urls [(shop_url, answer 200 (ascii ''800'') (Post_response 204))]
       (print (Error_caught (ascii ''connection refused'')) watching) \<and>
   \<not> isl (for_urls [(other_url, unreachable),
       (shop_url, answer 200 (ascii ''800'') (Post_response 204))] watching) \<and>
   previous_prices (projr (for_urls [(other_url, unreachable),
       (shop_url, answer 200 (ascii ''800'') (Post_response 204))] watching)) =
     [(shop_url, seen_at 800)]"
proof -
  have a: "for_urls [] watching = Inr watching" by simp
  have b: "got unreachable = Get_raises (ascii ''connection refused'')"
    by (simp add: unreachable_def)
  have c: "(\<exists>err. got unreachable = Get_raises err) \<or>
         (\<exists>code doc. got unreachable = Response code doc \<and>
            ((400 \<le> code \<and> code < 600) \<or> extract_price doc = None))"
    using b by simp
  have p: "process_url other_url unreachable watching =
     Inr (print (Error_caught (ascii ''connection refused'')) watching)"
    by (simp add: process_url_def check_price_def unreachable_def ascii_def)
  from failed_url_is_skipped [OF a c, of other_url
      "[(shop_url, answer 200 (ascii ''800'') (Post_response 204))]"]
  obtain line where l: "process_url other_url unreachable watching = Inr (print line watching)"
    and r: "for_urls ([] @ (other_url, unreachable) #
       [(shop_url, answer 200 (ascii ''800'') (Post_response 204))]) watching =
     for_urls [(shop_url, answer 200 (ascii ''800'') (Post_response 204))] (print line watching)"
    by blast
  from l p have e: "print line watching = print (Error_caught (ascii ''connection refused'')) watching"
    by simp
  have q: "for_urls [(other_url, unreachable),
       (shop_url, answer 200 (ascii ''800'') (Post_response 204))] watching =
      for_urls [(shop_url, answer 200 (ascii ''800'') (Post_response 204))]
       (print (Error_caught (ascii ''connection refused'')) watching)"
    using r e by simp
  show ?thesis
    using a b p q by (simp add: process_800 del: for_urls.simps(2)) (simp add: process_800)
qed

text \<open>
  C8 as stated fails for a status outside 200 to 299 that \<open>raise_for_status\<close> lets
  pass: an answer with status 300 and a page with the price 800 is handled as a price
  change, and the stored observation is replaced.
\<close>

theorem status_300_is_not_skipped:
  "\<not> (200 \<le> (300::nat) \<and> (300::nat) < 300) \<and>
   \<not> isl (process_url shop_url (answer 300 (ascii ''800'') (Post_response 204)) watching) \<and>
   previous_prices (projr (process_url shop_url
       (answer 300 (ascii ''800'') (Post_response 204)) watching)) = [(shop_url, seen_at 800)] \<and>
   previous_prices watching = [(shop_url, stored_1000)]"
  by (simp add: process_url_def check_price_def raise_for_status_def sample_defs price_eval
      name_eval notify_def send_discord_notification_def save_prices_def print_def Let_def)

section \<open>The invariant of the stored prices\<close>










section \<open>Properties of the name and of the structured search\<close>





text \<open>
  C3, at the input where the code departs from it. The first two patterns are given to
  \<open>find_all\<close> in the \<open>attrs\<close> dictionary under the key \<open>class_\<close>, which there is the
  name of an attribute, not the keyword for \<open>class\<close>; an element marked
  \<open>class="price"\<close> is not selected. A page whose only price is in such an element, with
  no unit after the number, gives no price; with the attribute spelled \<open>class_\<close> the
  same text gives 1000.
\<close>

theorem class_attribute_is_not_searched:
  "extract_price class_price_page = None \<and> extract_price class_underscore_page = Some 1000"
  by (simp add: class_price_page_def class_underscore_page_def price_eval)

end
